theory Spec2Isabelle
  imports Complex_Main
begin

section \<open>JavaScript values used by the chat component\<close>

text \<open>
  Strings are lists of code units. \<open>String.prototype.trim\<close> removes the ECMAScript
  white space and line terminator code units from both ends; the ones that fit a
  \<^typ>\<open>char\<close> are TAB, LF, VT, FF, CR, SPACE and NBSP.
\<close>

definition isWhiteSpace :: "char \<Rightarrow> bool" where
  "isWhiteSpace c =
     (c \<in> set [CHR 0x09, CHR 0x0A, CHR 0x0B, CHR 0x0C, CHR 0x0D, CHR 0x20, CHR 0xA0])"

definition trim :: "string \<Rightarrow> string" where
  "trim s = rev (dropWhile isWhiteSpace (rev (dropWhile isWhiteSpace s)))"

text \<open>\<open>String(n)\<close> for a non-negative integer, as template literals render a length.\<close>

definition digit_char :: "nat \<Rightarrow> char" where
  "digit_char d = ''0123456789'' ! d"

fun show_nat :: "nat \<Rightarrow> string" where
  "show_nat n =
     (if n < 10 then [digit_char n] else show_nat (n div 10) @ [digit_char (n mod 10)])"

declare show_nat.simps [simp del]

text \<open>\<open>haystack.includes(needle)\<close>: the needle occurs as a contiguous run.\<close>

fun str_includes :: "string \<Rightarrow> string \<Rightarrow> bool" where
  "str_includes [] needle = (needle = [])"
| "str_includes (c # cs) needle = (if take (length needle) (c # cs) = needle then True
                               else str_includes cs needle)"

text \<open>\<open>s.split(' ')\<close>: always at least one piece; the pieces joined by single spaces
  give \<open>s\<close> back.\<close>

fun split_space :: "string \<Rightarrow> string list" where
  "split_space [] = [[]]"
| "split_space (c # cs) =
     (if c = CHR '' '' then [] # split_space cs
      else (case split_space cs of
              [] \<Rightarrow> [[c]]
            | w # ws \<Rightarrow> (c # w) # ws))"

text \<open>
  A JavaScript number is NaN, an infinity or a finite value. The checks below only ask
  whether a number is truthy and how two time values compare, so finite values are
  rationals.
\<close>

datatype jsnum = NaN | Infinity bool | Fin rat

text \<open>
  The values a field of a conversation object can hold. A typed array is kept by its
  length: no function here reads its elements. \<open>JDate\<close> carries the time value
  (\<open>getTime()\<close>, NaN for an invalid date); \<open>JObject\<close> is any other object.
\<close>

datatype jsval =
    JUndefined
  | JNull
  | JBool bool
  | JNum jsnum
  | JStr string
  | JFloat32Array nat
  | JDate jsnum
  | JObject

fun falsy :: "jsval \<Rightarrow> bool" where
  "falsy JUndefined = True"
| "falsy JNull = True"
| "falsy (JBool b) = (b = False)"
| "falsy (JNum NaN) = True"
| "falsy (JNum (Infinity s)) = False"
| "falsy (JNum (Fin q)) = (q = 0)"
| "falsy (JStr s) = (s = [])"
| "falsy (JFloat32Array n) = False"
| "falsy (JDate t) = False"
| "falsy JObject = False"

fun typeof :: "jsval \<Rightarrow> string" where
  "typeof JUndefined = ''undefined''"
| "typeof JNull = ''object''"
| "typeof (JBool b) = ''boolean''"
| "typeof (JNum n) = ''number''"
| "typeof (JStr s) = ''string''"
| "typeof (JFloat32Array n) = ''object''"
| "typeof (JDate t) = ''object''"
| "typeof JObject = ''object''"

fun str_of :: "jsval \<Rightarrow> string" where
  "str_of (JStr s) = s"
| "str_of v = []"

fun instanceof_Float32Array :: "jsval \<Rightarrow> bool" where
  "instanceof_Float32Array (JFloat32Array n) = True"
| "instanceof_Float32Array v = False"

fun instanceof_Date :: "jsval \<Rightarrow> bool" where
  "instanceof_Date (JDate t) = True"
| "instanceof_Date v = False"

fun array_length :: "jsval \<Rightarrow> nat" where
  "array_length (JFloat32Array n) = n"
| "array_length v = 0"

text \<open>\<open>timestamp.getTime() > Date.now()\<close>; every comparison with NaN is false.\<close>

fun time_after :: "jsval \<Rightarrow> rat \<Rightarrow> bool" where
  "time_after (JDate (Fin t)) now = (now < t)"
| "time_after (JDate (Infinity s)) now = s"
| "time_after v now = False"

text \<open>An \<open>Error\<close> object: its \<open>name\<close> and its \<open>message\<close>.\<close>

record js_error =
  name :: string
  message :: string

definition Error :: "string \<Rightarrow> js_error" where
  "Error msg = \<lparr>name = ''Error'', message = msg\<rparr>"

section \<open>storage-manager.js\<close>

record conversationPair =
  pair_id :: jsval
  prompt :: jsval
  response :: jsval
  embedding :: jsval
  modelVersion :: jsval
  timestamp :: jsval

text \<open>
  \<open>validateConversationPair\<close> throws on the first failing check, in the order of the
  source; \<open>now\<close> is the reading of \<open>Date.now()\<close> in the last check.
\<close>

definition validateConversationPair :: "rat \<Rightarrow> conversationPair \<Rightarrow> js_error + unit" where
  "validateConversationPair now cp =
    (if falsy (pair_id cp) \<or> typeof (pair_id cp) \<noteq> ''number'' then
       Inl (Error ''ConversationPair must have numeric id (timestamp)'')
     else if falsy (prompt cp) \<or> typeof (prompt cp) \<noteq> ''string'' then
       Inl (Error ''ConversationPair must have prompt string'')
     else if falsy (response cp) \<or> typeof (response cp) \<noteq> ''string'' then
       Inl (Error ''ConversationPair must have response string'')
     else
       let promptLength = length (trim (str_of (prompt cp))) in
       if promptLength < 1 \<or> 10000 < promptLength then
         Inl (Error (''Prompt length must be 1-10000 characters, got '' @ show_nat promptLength))
       else
         let responseLength = length (trim (str_of (response cp))) in
         if responseLength < 1 \<or> 100000 < responseLength then
           Inl (Error (''Response length must be 1-100000 characters, got ''
                        @ show_nat responseLength))
         else if \<not> falsy (embedding cp) \<and> \<not> instanceof_Float32Array (embedding cp) then
           Inl (Error ''Embedding must be Float32Array'')
         else if \<not> falsy (embedding cp) \<and> array_length (embedding cp) \<noteq> 384 then
           Inl (Error (''Embedding must have 384 dimensions, got ''
                        @ show_nat (array_length (embedding cp))))
         else if falsy (modelVersion cp) \<or> typeof (modelVersion cp) \<noteq> ''string'' then
           Inl (Error ''ConversationPair must have modelVersion string'')
         else if \<not> instanceof_Date (timestamp cp) then
           Inl (Error ''ConversationPair must have timestamp as Date object'')
         else if time_after (timestamp cp) now then
           Inl (Error ''Timestamp cannot be in the future'')
         else Inr ())"

text \<open>
  The object store \<open>conversations\<close> of the IndexedDB database, keyed by \<open>id\<close>. The
  database is the browser's; what the code sees of it is whether a request succeeds or
  which error event it gets. A \<open>DOMException\<close> is its name and message; a template
  literal renders it as \<open>name: message\<close>, or as the one of the two that is not empty.
  \<open>add\<close> refuses a key that is already stored.
\<close>

type_synonym object_store = "conversationPair list"

record dom_exception =
  exn_name :: string
  exn_message :: string

definition render :: "dom_exception \<Rightarrow> string" where
  "render d =
     (if exn_name d = [] then exn_message d
      else if exn_message d = [] then exn_name d
      else exn_name d @ '': '' @ exn_message d)"

datatype save_fault =
    OpenFails dom_exception
  | RequestFails dom_exception
  | TransactionFails dom_exception

definition key_exists :: "jsval \<Rightarrow> object_store \<Rightarrow> bool" where
  "key_exists k db = (k \<in> set (map pair_id db))"

definition add_request :: "save_fault option \<Rightarrow> conversationPair \<Rightarrow> object_store \<Rightarrow> save_fault option" where
  "add_request fault cp db =
     (case fault of
        Some f \<Rightarrow> Some f
      | None \<Rightarrow>
          if key_exists (pair_id cp) db then
            Some (RequestFails \<lparr>exn_name = ''ConstraintError'',
                                 exn_message = ''Key already exists in the object store.''\<rparr>)
          else None)"

text \<open>
  \<open>saveConversation\<close> resolves to \<open>{success: true}\<close> (\<open>Inr ()\<close>) or to
  \<open>{success: false, error}\<close> (\<open>Inl error\<close>); the second component is the object store
  afterwards.
\<close>

definition saveConversation ::
  "rat \<Rightarrow> save_fault option \<Rightarrow> conversationPair \<Rightarrow> object_store \<Rightarrow> (js_error + unit) \<times> object_store" where
  "saveConversation now fault cp db =
     (case validateConversationPair now cp of
        Inl e \<Rightarrow> (Inl e, db)
      | Inr u \<Rightarrow>
          (case add_request fault cp db of
             None \<Rightarrow> (Inr (), db @ [cp])
           | Some (OpenFails d) \<Rightarrow> (Inl (Error (''Failed to open IndexedDB: '' @ render d)), db)
           | Some (RequestFails d) \<Rightarrow>
               if exn_name d = ''QuotaExceededError'' then
                 (Inl \<lparr>name = ''QuotaExceededError'',
                       message = ''Storage quota exceeded. Clear history to continue saving conversations.''\<rparr>,
                  db)
               else (Inl (Error (''Failed to save conversation: '' @ render d)), db)
           | Some (TransactionFails d) \<Rightarrow>
               (Inl (Error (''Transaction failed: '' @ render d)), db)))"

datatype clear_fault =
    ClearOpenFails dom_exception
  | CountFails dom_exception
  | ClearFails dom_exception

text \<open>
  \<open>clearHistory\<close> resolves to \<open>{count}\<close> (\<open>Inr count\<close>) or rejects (\<open>Inl error\<close>). Only a
  failure to open the database passes through the \<open>catch\<close> that rewraps the message.
\<close>

definition clearHistory ::
  "clear_fault option \<Rightarrow> object_store \<Rightarrow> (js_error + nat) \<times> object_store" where
  "clearHistory fault db =
     (case fault of
        Some (ClearOpenFails d) \<Rightarrow>
          (Inl (Error (''Failed to clear history: '' @ ''Failed to open IndexedDB: '' @ render d)), db)
      | Some (CountFails d) \<Rightarrow> (Inl (Error (''Failed to count records: '' @ render d)), db)
      | Some (ClearFails d) \<Rightarrow> (Inl (Error (''Failed to clear history: '' @ render d)), db)
      | None \<Rightarrow> (Inr (length db), []))"

text \<open>\<open>getConversationCount\<close>: the number of stored records.\<close>

definition getConversationCount :: "object_store \<Rightarrow> nat" where
  "getConversationCount db = length db"

section \<open>model-manager.js\<close>

text \<open>
  The \<open>ModelManager\<close> singleton. The pipelines are set and cleared together with their
  \<open>isLoaded\<close> flags, so the flags stand for them. Every call of \<open>generateTokens\<close> makes
  an \<open>AbortController\<close> of its own; \<open>abortController\<close> names the call whose controller
  the manager currently holds (\<open>None\<close> for \<open>null\<close>).
\<close>

record model_manager =
  isLlmLoaded :: bool
  isEmbeddingLoaded :: bool
  queuedPrompts :: "string list"
  abortController :: "nat option"
  systemPrompt :: string
  inferenceTimeout :: nat

definition queuePrompt :: "string \<Rightarrow> model_manager \<Rightarrow> model_manager" where
  "queuePrompt p m = m\<lparr>queuedPrompts := queuedPrompts m @ [p]\<rparr>"

definition getQueuedPrompts :: "model_manager \<Rightarrow> string list \<times> model_manager" where
  "getQueuedPrompts m = (queuedPrompts m, m\<lparr>queuedPrompts := []\<rparr>)"

definition full_prompt :: "string \<Rightarrow> string \<Rightarrow> string" where
  "full_prompt sys p =
     (if sys \<noteq> [] then sys @ [CHR 0x0A, CHR 0x0A] @ ''User: '' @ p @ [CHR 0x0A, CHR 0x0A] @ ''Assistant:''
      else ''User: '' @ p @ [CHR 0x0A, CHR 0x0A] @ ''Assistant:'')"

text \<open>The token yielded for \<open>words[i]\<close>: the word, and a space unless it is the last.\<close>

definition token_at :: "string list \<Rightarrow> nat \<Rightarrow> string" where
  "token_at words i = words ! i @ (if i < length words - 1 then '' '' else [])"

text \<open>What the text-generation pipeline and the embedding pipeline answer.\<close>

datatype pipeline_outcome = PipelineText string | PipelineThrows js_error

datatype embed_outcome = EmbedData nat | EmbedThrows string

section \<open>The chat component\<close>

datatype visibility = Hidden | InputVisible | Generating | ResponseVisible

text \<open>
  What the response element shows: plain text (\<open>textContent\<close>), the spinner with its
  label, or the error line made by \<open>_showError\<close>.
\<close>

datatype response_area = TextContent string | LoadingIndicator string | ErrorLine string

datatype custom_event =
    ChatActivated
  | ChatHidden
  | ModelLoadingNeeded string
  | GenerationStarted string
  | GenerationProgress nat string
  | GenerationComplete string string nat bool
  | GenerationError string string string
  | GenerationCancelled string string nat
  | ModelLoaded
  | HistoryCleared nat

datatype level = Log | Warn | Err

text \<open>
  One call of \<open>_generateResponse\<close> with the generators it drives. \<open>producer\<close> says where
  \<open>generateTokens\<close> is suspended, \<open>consumer\<close> where \<open>_generateResponse\<close> (or, before
  it, \<open>_submitPrompt\<close>) is suspended.
\<close>

datatype token_result = Token string | Done

datatype producer =
    NotCalled
  | AwaitPipeline
  | AwaitDelay "string list" nat
  | AtYield "string list" nat
  | Returned

datatype consumer =
    AwaitFrame
  | AwaitFirst "token_result option" bool
  | Streaming
  | Saving
  | Settled

record generation =
  gen_prompt :: string
  producer :: producer
  consumer :: consumer
  aborted :: bool
  timeoutMs :: nat
  startTime :: nat
  fullPrompt :: string
  fullResponse :: string
  tokenCount :: nat

definition new_generation :: "string \<Rightarrow> generation" where
  "new_generation p =
     \<lparr>gen_prompt = p, producer = NotCalled, consumer = AwaitFrame, aborted = False,
      timeoutMs = 0, startTime = 0, fullPrompt = [], fullResponse = [], tokenCount = 0\<rparr>"

text \<open>
  The component with everything it acts on: \<open>this.state\<close>, the elements of its shadow
  DOM, its conversation count, the model manager, the calls in flight, the clock
  (\<open>Date.now()\<close>), the object store, the events dispatched and the console.
  \<open>clickListener\<close> says whether \<open>_handleClickOutside\<close> is attached to the document;
  \<open>listenerTimers\<close> counts the 100 ms timers of \<open>activate\<close> that have not fired yet.
  Focus is left out: nothing below reads it.
\<close>

record world =
  visibility :: visibility
  currentPrompt :: string
  currentResponse :: string
  isGenerating :: bool
  generationAborted :: bool
  errorMessage :: "string option"
  inputValue :: string
  responseContent :: response_area
  responseVisible :: bool
  responseLoading :: bool
  responseError :: bool
  actionsVisible :: bool
  containerVisible :: bool
  clickListener :: bool
  listenerTimers :: nat
  conversationCount :: nat
  manager :: model_manager
  gens :: "generation list"
  clock :: nat
  idb :: object_store
  dispatched :: "custom_event list"
  console :: "(level \<times> string) list"

definition upd_gen :: "nat \<Rightarrow> (generation \<Rightarrow> generation) \<Rightarrow> world \<Rightarrow> world" where
  "upd_gen g f w = w\<lparr>gens := (gens w)[g := f (gens w ! g)]\<rparr>"

definition dispatchEvent :: "custom_event \<Rightarrow> world \<Rightarrow> world" where
  "dispatchEvent e w = w\<lparr>dispatched := dispatched w @ [e]\<rparr>"

definition console_write :: "level \<Rightarrow> string \<Rightarrow> world \<Rightarrow> world" where
  "console_write l msg w = w\<lparr>console := console w @ [(l, msg)]\<rparr>"

text \<open>\<open>modelManager.cancelGeneration()\<close>: aborts the controller the manager holds.\<close>

definition cancelGeneration :: "world \<Rightarrow> world" where
  "cancelGeneration w =
     (case abortController (manager w) of
        None \<Rightarrow> w
      | Some g \<Rightarrow> upd_gen g (\<lambda>x. x\<lparr>aborted := True\<rparr>) w)"

text \<open>
  \<open>modelManager.generateEmbedding(text)\<close>: without an embedding model a random
  384-dimensional vector and a warning; otherwise the pipeline's vector, or an error.
\<close>

definition generateEmbedding :: "embed_outcome \<Rightarrow> world \<Rightarrow> (js_error + jsval) \<times> world" where
  "generateEmbedding out w =
     (if \<not> isEmbeddingLoaded (manager w) then
        (Inr (JFloat32Array 384),
         console_write Warn ''Embedding model not loaded. Generating random embedding as fallback.'' w)
      else
        (case out of
           EmbedData n \<Rightarrow> (Inr (JFloat32Array n), w)
         | EmbedThrows msg \<Rightarrow>
             (Inl (Error (''Failed to generate embedding: '' @ msg)),
              console_write Err (''Embedding generation failed: Error: '' @ msg) w)))"

definition activate :: "world \<Rightarrow> world" where
  "activate w =
     dispatchEvent ChatActivated
       (w\<lparr>visibility := InputVisible, containerVisible := True,
          listenerTimers := Suc (listenerTimers w)\<rparr>)"

text \<open>A 100 ms timer of \<open>activate\<close> fires and attaches the click listener.\<close>

definition listenerTimer :: "world \<Rightarrow> world" where
  "listenerTimer w =
     (if 0 < listenerTimers w then
        w\<lparr>clickListener := True, listenerTimers := listenerTimers w - 1\<rparr>
      else w)"

definition hide :: "world \<Rightarrow> world" where
  "hide w =
     dispatchEvent ChatHidden
       (w\<lparr>visibility := Hidden, containerVisible := False, responseVisible := False,
          actionsVisible := False, currentPrompt := [], currentResponse := [],
          errorMessage := None, inputValue := [], responseContent := TextContent [],
          clickListener := False\<rparr>)"

definition showError :: "string \<Rightarrow> world \<Rightarrow> world" where
  "showError msg w =
     w\<lparr>errorMessage := Some msg, visibility := ResponseVisible, responseVisible := True,
       responseError := True, responseLoading := False, responseContent := ErrorLine msg,
       actionsVisible := True\<rparr>"

definition handleInputClick :: "world \<Rightarrow> world" where
  "handleInputClick w =
     (if visibility w = ResponseVisible then
        w\<lparr>responseVisible := False, responseContent := TextContent [], actionsVisible := False,
          visibility := InputVisible, currentResponse := [], errorMessage := None\<rparr>
      else w)"

text \<open>\<open>_cancelGeneration\<close>.\<close>

definition component_cancelGeneration :: "world \<Rightarrow> world" where
  "component_cancelGeneration w =
     (let w1 = cancelGeneration w;
          w2 = w1\<lparr>isGenerating := False, generationAborted := True, responseVisible := False,
                  responseContent := TextContent [], visibility := InputVisible\<rparr>
      in dispatchEvent
           (GenerationCancelled (currentPrompt w2) (currentResponse w2)
              (length (split_space (currentResponse w2)))) w2)"

datatype key = TriggerKey | Escape | OtherKey

definition isVisible :: "world \<Rightarrow> bool" where
  "isVisible w = (visibility w \<noteq> Hidden)"

definition handleKeyboard :: "key \<Rightarrow> world \<Rightarrow> world" where
  "handleKeyboard k w =
     (if k = TriggerKey then activate w
      else if k = Escape \<and> isVisible w then
        (if isGenerating w then component_cancelGeneration w else hide w)
      else w)"

definition handleClickOutside :: "bool \<Rightarrow> world \<Rightarrow> world" where
  "handleClickOutside clickedInside w =
     (if \<not> clickedInside \<and> \<not> isGenerating w then hide w else w)"

text \<open>
  \<open>_submitPrompt\<close> up to its first suspension: the two animation frames it waits for
  before it calls \<open>_generateResponse\<close>. The call in flight is entered in \<open>gens\<close>.
\<close>

definition submitPrompt :: "world \<Rightarrow> world" where
  "submitPrompt w =
     (let p = trim (inputValue w) in
      if p = [] then w
      else if 10000 < length p then showError ''Prompt too long (max 10,000 characters)'' w
      else
        let w1 = w\<lparr>errorMessage := None, responseError := False, actionsVisible := False,
                   currentPrompt := p, currentResponse := []\<rparr>
        in if \<not> isLlmLoaded (manager w1) then
             dispatchEvent (ModelLoadingNeeded p)
               (w1\<lparr>visibility := Generating, responseVisible := True, responseLoading := True,
                   responseContent := LoadingIndicator ''Loading model...'',
                   manager := queuePrompt p (manager w1)\<rparr>)
           else
             w1\<lparr>visibility := Generating, isGenerating := True, responseVisible := True,
                responseLoading := True,
                responseContent := LoadingIndicator ''Generating response...'',
                gens := gens w1 @ [new_generation p]\<rparr>)"

subsection \<open>Generating a response\<close>

text \<open>\<open>Error.prototype.toString\<close>, and the message the \<open>catch\<close> of \<open>_generateResponse\<close>
  extracts from what was thrown.\<close>

definition error_toString :: "js_error \<Rightarrow> string" where
  "error_toString e =
     (if name e = [] then message e
      else if message e = [] then name e
      else name e @ '': '' @ message e)"

definition error_text :: "js_error \<Rightarrow> string" where
  "error_text e =
     (if message e \<noteq> [] then message e
      else if error_toString e \<noteq> [] then error_toString e
      else ''Unknown error occurred'')"

text \<open>The \<open>catch\<close> block of \<open>_generateResponse\<close>.\<close>

definition consumer_fail :: "nat \<Rightarrow> js_error \<Rightarrow> world \<Rightarrow> world" where
  "consumer_fail g e w =
     (let w1 = upd_gen g (\<lambda>x. x\<lparr>consumer := Settled\<rparr>) (w\<lparr>isGenerating := False\<rparr>);
          msg = error_text e
      in if str_includes msg ''cancelled'' then w1
         else dispatchEvent
                (GenerationError (gen_prompt (gens w ! g)) msg
                   (if str_includes msg ''timeout'' then ''inference-timeout''
                    else ''inference-error''))
                (showError msg w1))"

text \<open>
  \<open>_generateResponse\<close> after its streaming loop, up to the \<open>await\<close> of
  \<open>_saveConversation\<close>; without a response to save it runs to its end.
\<close>

definition consumer_complete :: "nat \<Rightarrow> world \<Rightarrow> world" where
  "consumer_complete g w =
     (let x = gens w ! g;
          w1 = w\<lparr>currentResponse := fullResponse x, isGenerating := False,
                  visibility := ResponseVisible\<rparr>
      in if 0 < length (trim (fullResponse x)) then upd_gen g (\<lambda>y. y\<lparr>consumer := Saving\<rparr>) w1
         else dispatchEvent
                (GenerationComplete (gen_prompt x) (fullResponse x) (tokenCount x) False)
                (console_write Log ''Skipping save - empty response (likely cancelled)''
                   (upd_gen g (\<lambda>y. y\<lparr>consumer := Settled\<rparr>) w1)))"

text \<open>The \<open>finally\<close> block of \<open>generateTokens\<close>.\<close>

definition generator_finish :: "nat \<Rightarrow> world \<Rightarrow> world" where
  "generator_finish g w =
     upd_gen g (\<lambda>x. x\<lparr>producer := Returned\<rparr>)
       (w\<lparr>manager := (manager w)\<lparr>abortController := None\<rparr>\<rparr>)"

text \<open>
  \<open>_generateResponse\<close> once both the first pull and the 800 ms timer have settled,
  when the first pull found the generator finished.
\<close>

definition join_done :: "nat \<Rightarrow> world \<Rightarrow> world" where
  "join_done g w =
     consumer_complete g
       (upd_gen g (\<lambda>x. x\<lparr>consumer := Streaming\<rparr>)
          (w\<lparr>responseLoading := False, responseContent := TextContent []\<rparr>))"

text \<open>The generator has returned: the pending pull resolves with \<open>done\<close>.\<close>

definition notify_done :: "nat \<Rightarrow> world \<Rightarrow> world" where
  "notify_done g w =
     (case consumer (gens w ! g) of
        AwaitFirst first timer \<Rightarrow>
          (let w1 = upd_gen g (\<lambda>x. x\<lparr>consumer := AwaitFirst (Some Done) timer\<rparr>) w
           in if timer then join_done g w1 else w1)
      | Streaming \<Rightarrow> consumer_complete g w
      | _ \<Rightarrow> w)"

text \<open>The head of the loop of \<open>generateTokens\<close> at index \<open>i\<close>, up to its 30 ms pause.\<close>

definition producer_loop :: "nat \<Rightarrow> string list \<Rightarrow> nat \<Rightarrow> world \<Rightarrow> world" where
  "producer_loop g words i w =
     (if i < length words then
        (if aborted (gens w ! g) then
           notify_done g (generator_finish g (console_write Log ''Generation cancelled'' w))
         else upd_gen g (\<lambda>x. x\<lparr>producer := AwaitDelay words i\<rparr>) w)
      else notify_done g (generator_finish g w))"

text \<open>The consumer pulls again: the generator resumes after its \<open>yield\<close>.\<close>

definition producer_resume :: "nat \<Rightarrow> world \<Rightarrow> world" where
  "producer_resume g w =
     (case producer (gens w ! g) of
        AtYield words i \<Rightarrow> producer_loop g words (Suc i) w
      | _ \<Rightarrow> w)"

text \<open>The body of the streaming loop of \<open>_generateResponse\<close> for one token.\<close>

definition append_token :: "nat \<Rightarrow> string \<Rightarrow> world \<Rightarrow> world" where
  "append_token g tok w =
     (let x = gens w ! g;
          full = fullResponse x @ tok;
          n = Suc (tokenCount x);
          w1 = upd_gen g (\<lambda>y. y\<lparr>fullResponse := full, tokenCount := n\<rparr>)
                 (w\<lparr>responseContent := TextContent full\<rparr>)
      in if n mod 10 = 0 then dispatchEvent (GenerationProgress n full) w1 else w1)"

text \<open>
  \<open>_generateResponse\<close> once both the first pull and the 800 ms timer have settled,
  when the first pull brought a token: an empty token is not counted.
\<close>

definition join_token :: "nat \<Rightarrow> string \<Rightarrow> world \<Rightarrow> world" where
  "join_token g v w =
     (let w1 = w\<lparr>responseLoading := False, responseContent := TextContent []\<rparr>;
          x = gens w1 ! g;
          w2 = (if v \<noteq> [] then
                  upd_gen g (\<lambda>y. y\<lparr>fullResponse := fullResponse x @ v,
                                    tokenCount := Suc (tokenCount x)\<rparr>)
                    (w1\<lparr>responseContent := TextContent (fullResponse x @ v)\<rparr>)
                else w1)
      in producer_resume g (upd_gen g (\<lambda>y. y\<lparr>consumer := Streaming\<rparr>) w2))"

text \<open>The timeout wrapper passes a token on to \<open>_generateResponse\<close>.\<close>

definition deliver_token :: "nat \<Rightarrow> string \<Rightarrow> world \<Rightarrow> world" where
  "deliver_token g tok w =
     (case consumer (gens w ! g) of
        AwaitFirst first timer \<Rightarrow>
          (let w1 = upd_gen g (\<lambda>x. x\<lparr>consumer := AwaitFirst (Some (Token tok)) timer\<rparr>) w
           in if timer then join_token g tok w1 else w1)
      | Streaming \<Rightarrow> producer_resume g (append_token g tok w)
      | _ \<Rightarrow> w)"

text \<open>
  \<open>_generateResponse\<close> up to its first \<open>await\<close>: the first pull starts
  \<open>generateTokensWithTimeout\<close> (which reads the timeout and the clock) and through it
  \<open>generateTokens\<close>, which throws without a model and otherwise makes its controller
  and waits for the pipeline.
\<close>

definition generateResponse_start :: "nat \<Rightarrow> world \<Rightarrow> world" where
  "generateResponse_start g w =
     (let w1 = upd_gen g (\<lambda>x. x\<lparr>timeoutMs := inferenceTimeout (manager w),
                                  startTime := clock w\<rparr>) w
      in if \<not> isLlmLoaded (manager w1) then
           consumer_fail g (Error ''LLM model not loaded. Load model before generating.'')
             (upd_gen g (\<lambda>x. x\<lparr>producer := Returned\<rparr>) w1)
         else
           upd_gen g
             (\<lambda>x. x\<lparr>aborted := False,
                     fullPrompt := full_prompt (systemPrompt (manager w1)) (gen_prompt x),
                     producer := AwaitPipeline, consumer := AwaitFirst None False\<rparr>)
             (w1\<lparr>manager := (manager w1)\<lparr>abortController := Some g\<rparr>\<rparr>))"

text \<open>The animation frames have passed: \<open>_submitPrompt\<close> goes on.\<close>

definition frame :: "nat \<Rightarrow> world \<Rightarrow> world" where
  "frame g w =
     (if g < length (gens w) \<and> consumer (gens w ! g) = AwaitFrame then
        generateResponse_start g (dispatchEvent (GenerationStarted (gen_prompt (gens w ! g))) w)
      else w)"

text \<open>
  The pipeline has answered. The generated text starts with the full prompt, which is
  cut off; the rest is split into words. A pipeline error is rethrown, as a
  cancellation when the signal is aborted.
\<close>

definition pipelineSettled :: "nat \<Rightarrow> pipeline_outcome \<Rightarrow> world \<Rightarrow> world" where
  "pipelineSettled g out w =
     (if g < length (gens w) \<and> producer (gens w ! g) = AwaitPipeline then
        (case out of
           PipelineText generatedText \<Rightarrow>
             producer_loop g
               (split_space (drop (length (fullPrompt (gens w ! g))) generatedText)) 0 w
         | PipelineThrows e \<Rightarrow>
             consumer_fail g
               (if aborted (gens w ! g) then Error ''Generation cancelled by user'' else e)
               (generator_finish g w))
      else w)"

text \<open>
  The 30 ms pause is over: \<open>generateTokens\<close> yields \<open>words[i]\<close> to
  \<open>generateTokensWithTimeout\<close>, which checks the clock. Past the timeout it cancels
  and throws, which also ends \<open>generateTokens\<close>; otherwise it yields the token on.
\<close>

definition delayElapsed :: "nat \<Rightarrow> world \<Rightarrow> world" where
  "delayElapsed g w =
     (if g < length (gens w) then
        (case producer (gens w ! g) of
           AwaitDelay words i \<Rightarrow>
             (let x = gens w ! g in
              if timeoutMs x < clock w - startTime x then
                consumer_fail g
                  (Error (''Inference timeout after '' @ show_nat (timeoutMs x) @ ''ms''))
                  (generator_finish g (cancelGeneration w))
              else deliver_token g (token_at words i)
                     (upd_gen g (\<lambda>y. y\<lparr>producer := AtYield words i\<rparr>) w))
         | _ \<Rightarrow> w)
      else w)"

text \<open>The 800 ms timer of \<open>_generateResponse\<close> fires.\<close>

definition minLoadingElapsed :: "nat \<Rightarrow> world \<Rightarrow> world" where
  "minLoadingElapsed g w =
     (if g < length (gens w) then
        (case consumer (gens w ! g) of
           AwaitFirst first timer \<Rightarrow>
             (if timer then w
              else
                (let w1 = upd_gen g (\<lambda>x. x\<lparr>consumer := AwaitFirst first True\<rparr>) w
                 in case first of
                      None \<Rightarrow> w1
                    | Some Done \<Rightarrow> join_done g w1
                    | Some (Token v) \<Rightarrow> join_token g v w1))
         | _ \<Rightarrow> w)
      else w)"

text \<open>
  \<open>_saveConversation\<close>: the embedding, the record, the save. \<open>out\<close> and \<open>fault\<close> are
  what the embedding pipeline and the database answer; the id, the timestamp and the
  validation read the same clock.
\<close>

definition component_saveConversation ::
  "embed_outcome \<Rightarrow> save_fault option \<Rightarrow> string \<Rightarrow> string \<Rightarrow> world \<Rightarrow> bool \<times> world" where
  "component_saveConversation out fault p r w =
     (case generateEmbedding out w of
        (Inl e, w1) \<Rightarrow>
          (False, console_write Err (''Error saving conversation: '' @ error_toString e) w1)
      | (Inr emb, w1) \<Rightarrow>
          (let cp = \<lparr>pair_id = JNum (Fin (of_nat (clock w1))), prompt = JStr p,
                     response = JStr r, embedding = emb, modelVersion = JStr ''mvp-mock'',
                     timestamp = JDate (Fin (of_nat (clock w1)))\<rparr>
           in case saveConversation (of_nat (clock w1)) fault cp (idb w1) of
                (Inr u, store) \<Rightarrow>
                  (True, w1\<lparr>idb := store, conversationCount := Suc (conversationCount w1)\<rparr>)
              | (Inl e, store) \<Rightarrow>
                  if name e = ''QuotaExceededError'' then
                    (False, console_write Warn (''Storage quota exceeded: '' @ message e)
                              (w1\<lparr>idb := store\<rparr>))
                  else
                    (False, console_write Err
                              (''Failed to save conversation: '' @ error_toString e)
                              (w1\<lparr>idb := store\<rparr>))))"

text \<open>\<open>_saveConversation\<close> has settled: \<open>_generateResponse\<close> reports completion.\<close>

definition saveSettled :: "nat \<Rightarrow> embed_outcome \<Rightarrow> save_fault option \<Rightarrow> world \<Rightarrow> world" where
  "saveSettled g out fault w =
     (if g < length (gens w) \<and> consumer (gens w ! g) = Saving then
        (let x = gens w ! g in
         case component_saveConversation out fault (gen_prompt x) (fullResponse x) w of
           (saved, w1) \<Rightarrow>
             dispatchEvent
               (GenerationComplete (gen_prompt x) (fullResponse x) (tokenCount x) saved)
               (upd_gen g (\<lambda>y. y\<lparr>consumer := Settled\<rparr>) w1))
      else w)"

definition retry :: "world \<Rightarrow> world" where
  "retry w =
     (if currentPrompt w = [] then w
      else generateResponse_start (length (gens w))
             (w\<lparr>errorMessage := None, responseError := False, actionsVisible := False,
                gens := gens w @ [new_generation (currentPrompt w)]\<rparr>))"

subsection \<open>Loading the model\<close>

text \<open>
  How loading the embedding model goes when a URL is configured: it loads, or it fails
  with a message. \<open>loadModel\<close> logs the URL before it calls the pipeline, so a failure
  carries the URL when that line was reached.
\<close>

datatype embedding_load =
    NoEmbeddingUrl
  | EmbeddingLoads string
  | EmbeddingLoadFails "string option" string

text \<open>\<open>_loadEmbeddingModel\<close>, with the way the load goes.\<close>

definition loadEmbeddingModel :: "embedding_load \<Rightarrow> world \<Rightarrow> world" where
  "loadEmbeddingModel emb w =
     (case emb of
        NoEmbeddingUrl \<Rightarrow> w
      | EmbeddingLoads url \<Rightarrow>
          console_write Log ''Embedding model loaded''
            (console_write Log (''Loading embedding model: '' @ url)
               (w\<lparr>manager := (manager w)\<lparr>isEmbeddingLoaded := True\<rparr>\<rparr>))
      | EmbeddingLoadFails reached msg \<Rightarrow>
          console_write Warn (''Failed to load embedding model: '' @ msg)
            (case reached of
               None \<Rightarrow> w
             | Some url \<Rightarrow> console_write Log (''Loading embedding model: '' @ url) w))"

text \<open>
  \<open>_loadModels\<close> from the moment \<open>modelManager.loadModel\<close> has succeeded (which sets
  \<open>isLlmLoaded\<close> and logs a non-empty queue): the embedding model if one is
  configured, then the queued prompts.
\<close>

definition loadModels_loaded :: "embedding_load \<Rightarrow> world \<Rightarrow> world" where
  "loadModels_loaded emb w =
     (let w0 = w\<lparr>manager := (manager w)\<lparr>isLlmLoaded := True\<rparr>\<rparr>;
          w1 = dispatchEvent ModelLoaded
                 (if 0 < length (queuedPrompts (manager w0)) then
                    console_write Log
                      (''Processing '' @ show_nat (length (queuedPrompts (manager w0)))
                        @ '' queued prompts'') w0
                  else w0);
          w2 = loadEmbeddingModel emb w1;
          queued = fst (getQueuedPrompts (manager w2));
          w3 = w2\<lparr>manager := snd (getQueuedPrompts (manager w2))\<rparr>
      in if 0 < length queued then
           (let w4 = console_write Log
                       (''Processing '' @ show_nat (length queued) @ '' queued prompts'') w3
            in if queued ! 0 \<noteq> [] then
                 submitPrompt (w4\<lparr>responseLoading := False, isGenerating := False,
                                  inputValue := queued ! 0\<rparr>)
               else w4)
         else w3)"

subsection \<open>History\<close>

definition component_clearHistory :: "clear_fault option \<Rightarrow> world \<Rightarrow> world" where
  "component_clearHistory fault w =
     (case clearHistory fault (idb w) of
        (Inr n, store) \<Rightarrow>
          dispatchEvent (HistoryCleared n) (w\<lparr>idb := store, conversationCount := 0\<rparr>)
      | (Inl e, store) \<Rightarrow>
          console_write Err (''Failed to clear history: '' @ error_toString e)
            (w\<lparr>idb := store\<rparr>))"

subsection \<open>Runs\<close>

text \<open>
  What can happen to the component, one event at a time: the user and the host page,
  the timers and pipelines that the calls in flight wait for, and the clock.
\<close>

datatype event =
    KeyDown key
  | Click bool
  | ListenerTimer
  | InputClick
  | Typed string
  | InputEnter
  | RetryCall
  | HideCall
  | ActivateCall
  | ClearHistoryCall "clear_fault option"
  | LlmLoaded embedding_load
  | Frame nat
  | PipelineSettled nat pipeline_outcome
  | DelayElapsed nat
  | MinLoadingElapsed nat
  | SaveSettled nat embed_outcome "save_fault option"
  | Tick nat

fun step :: "world \<Rightarrow> event \<Rightarrow> world" where
  "step w (KeyDown k) = handleKeyboard k w"
| "step w (Click inside) = (if clickListener w then handleClickOutside inside w else w)"
| "step w ListenerTimer = listenerTimer w"
| "step w InputClick = handleInputClick w"
| "step w (Typed s) = w\<lparr>inputValue := s\<rparr>"
| "step w InputEnter = submitPrompt w"
| "step w RetryCall = retry w"
| "step w HideCall = hide w"
| "step w ActivateCall = activate w"
| "step w (ClearHistoryCall fault) = component_clearHistory fault w"
| "step w (LlmLoaded emb) = loadModels_loaded emb w"
| "step w (Frame g) = frame g w"
| "step w (PipelineSettled g out) = pipelineSettled g out w"
| "step w (DelayElapsed g) = delayElapsed g w"
| "step w (MinLoadingElapsed g) = minLoadingElapsed g w"
| "step w (SaveSettled g out fault) = saveSettled g out fault w"
| "step w (Tick n) = w\<lparr>clock := clock w + n\<rparr>"

definition run :: "world \<Rightarrow> event list \<Rightarrow> world" where
  "run w es = foldl step w es"

text \<open>A component as its constructor leaves it, in a page that has just opened.\<close>

definition initial_world :: world where
  "initial_world =
     \<lparr>visibility = Hidden, currentPrompt = [], currentResponse = [], isGenerating = False,
      generationAborted = False, errorMessage = None, inputValue = [],
      responseContent = TextContent [], responseVisible = False, responseLoading = False,
      responseError = False, actionsVisible = False, containerVisible = False,
      clickListener = False, listenerTimers = 0, conversationCount = 0,
      manager = \<lparr>isLlmLoaded = False, isEmbeddingLoaded = False, queuedPrompts = [],
                 abortController = None, systemPrompt = ''You are a helpful AI assistant.'',
                 inferenceTimeout = 30000\<rparr>,
      gens = [], clock = 1700000000000, idb = [], dispatched = [], console = []\<rparr>"

section \<open>Concrete inputs\<close>

text \<open>A record as a cancelled generation would leave it: the response is blank.\<close>

definition blank_response_pair :: conversationPair where
  "blank_response_pair =
     \<lparr>pair_id = JNum (Fin 1700000000000), prompt = JStr ''tell a story'',
      response = JStr ''   '', embedding = JUndefined, modelVersion = JStr ''mvp-mock'',
      timestamp = JDate (Fin 1700000000000)\<rparr>"

text \<open>A well-formed record whose embedding has \<open>n\<close> dimensions.\<close>

definition embedded_pair :: "nat \<Rightarrow> conversationPair" where
  "embedded_pair n =
     \<lparr>pair_id = JNum (Fin 1700000000000), prompt = JStr ''ping'',
      response = JStr ''pong'', embedding = JFloat32Array n, modelVersion = JStr ''mvp-mock'',
      timestamp = JDate (Fin 1700000000000)\<rparr>"

text \<open>
  The user opens the component with the model loaded, asks for a story and has seen
  three fragments of it: the first was held back until the 800 ms timer, the next two
  came 30 ms apart.
\<close>

definition story_prefix :: "event list" where
  "story_prefix =
     [LlmLoaded NoEmbeddingUrl, KeyDown TriggerKey, Typed ''tell a story'', InputEnter, Frame 0,
      Tick 500,
      PipelineSettled 0 (PipelineText
        (full_prompt ''You are a helpful AI assistant.'' ''tell a story''
           @ ''Once upon a time there was'')),
      Tick 30, DelayElapsed 0, Tick 270, MinLoadingElapsed 0,
      Tick 30, DelayElapsed 0, Tick 30, DelayElapsed 0]"

text \<open>The user opens the component and types \<open>n\<close> letters.\<close>

definition long_prompt :: "nat \<Rightarrow> event list" where
  "long_prompt n = [KeyDown TriggerKey, Typed (replicate n (CHR ''a''))]"

text \<open>The user submits two prompts before the model has loaded.\<close>

definition queue_two :: "event list" where
  "queue_two = [KeyDown TriggerKey, Typed ''first'', InputEnter, Typed ''second'', InputEnter]"


text \<open>
  The user presses Escape after the third fragment. The 30 ms pause that was running
  ends, and the save that follows finds the database working.
\<close>

definition cancel_tail :: "event list" where
  "cancel_tail = [KeyDown Escape, Tick 30, DelayElapsed 0, SaveSettled 0 (EmbedData 384) None]"

text \<open>
  The user asks \<open>ping\<close>; the pipeline answers \<open>pong\<close> after 500 ms, and the 800 ms
  timer has fired. The one fragment is due.
\<close>

definition ping_prefix :: "embedding_load \<Rightarrow> event list" where
  "ping_prefix emb =
     [LlmLoaded emb, KeyDown TriggerKey, Typed ''ping'', InputEnter, Frame 0,
      Tick 500,
      PipelineSettled 0 (PipelineText
        (full_prompt ''You are a helpful AI assistant.'' ''ping'' @ ''pong'')),
      Tick 300, MinLoadingElapsed 0, Tick 30]"



text \<open>A component configured with \<open>inference-timeout="1000"\<close>.\<close>

definition timeout_world :: world where
  "timeout_world =
     initial_world\<lparr>manager := (manager initial_world)\<lparr>inferenceTimeout := 1000\<rparr>\<rparr>"

text \<open>
  The user asks \<open>hi\<close> and the pipeline never answers: \<open>n\<close> milliseconds pass after
  the first pull, and nothing else happens but the 800 ms timer.
\<close>

definition hung_run :: "nat \<Rightarrow> event list" where
  "hung_run n =
     [LlmLoaded NoEmbeddingUrl, KeyDown TriggerKey, Typed ''hi'', InputEnter, Frame 0,
      Tick n, MinLoadingElapsed 0]"

text \<open>The pipeline answers after 1001 ms, and the first fragment follows.\<close>

definition late_run :: "event list" where
  "late_run =
     [LlmLoaded NoEmbeddingUrl, KeyDown TriggerKey, Typed ''hi'', InputEnter, Frame 0,
      Tick 1001, MinLoadingElapsed 0,
      PipelineSettled 0 (PipelineText
        (full_prompt ''You are a helpful AI assistant.'' ''hi'' @ ''hello there'')),
      DelayElapsed 0]"

section \<open>Properties of trimming\<close>

lemma trim_head:
  assumes "trim s \<noteq> []"
  shows "\<not> isWhiteSpace (hd (trim s))"
proof -
  let ?ys = "dropWhile isWhiteSpace s"
  let ?zs = "dropWhile isWhiteSpace (rev ?ys)"
  from assms have z: "?zs \<noteq> []" by (simp add: trim_def)
  have y: "?ys \<noteq> []"
  proof
    assume "?ys = []"
    then have "?zs = []" by (metis dropWhile.simps(1) rev.simps(1))
    with z show False by simp
  qed
  have "rev ?ys = takeWhile isWhiteSpace (rev ?ys) @ ?zs" by simp
  with z have "last (rev ?ys) = last ?zs" by (metis last_appendR)
  with y have "last ?zs = hd ?ys" by (simp add: last_rev)
  moreover from y have "\<not> isWhiteSpace (hd ?ys)" by (rule hd_dropWhile)
  ultimately show ?thesis using z by (simp add: trim_def hd_rev)
qed

lemma trim_trim: "trim (trim s) = trim s"
proof -
  have a: "dropWhile isWhiteSpace (trim s) = trim s"
    using trim_head [of s] by (cases "trim s") auto
  have "rev (trim s) = dropWhile isWhiteSpace (rev (dropWhile isWhiteSpace s))"
    by (simp add: trim_def)
  then have "dropWhile isWhiteSpace (rev (trim s)) = rev (trim s)" by simp
  with a show ?thesis by (simp add: trim_def)
qed

section \<open>Properties of the record store\<close>

lemma typeof_number_iff: "typeof v = ''number'' \<longleftrightarrow> (\<exists>n. v = JNum n)"
  by (cases v) auto

lemma typeof_string_iff: "typeof v = ''string'' \<longleftrightarrow> (\<exists>s. v = JStr s)"
  by (cases v) auto

lemma instanceof_Date_iff: "instanceof_Date v \<longleftrightarrow> (\<exists>t. v = JDate t)"
  by (cases v) auto

lemma validate_rejects:
  assumes "(\<forall>n. pair_id cp \<noteq> JNum n)
         \<or> (\<forall>s. prompt cp = JStr s \<longrightarrow> length (trim s) < 1 \<or> 10000 < length (trim s))
         \<or> (\<forall>s. response cp = JStr s \<longrightarrow> length (trim s) < 1 \<or> 100000 < length (trim s))
         \<or> (\<forall>s. modelVersion cp = JStr s \<longrightarrow> s = [])
         \<or> (\<forall>t. timestamp cp = JDate t \<longrightarrow> (\<exists>q. t = Fin q \<and> now < q))"
  shows "\<exists>e. validateConversationPair now cp = Inl e"
  using assms
  unfolding validateConversationPair_def Let_def
  by (auto simp: typeof_number_iff typeof_string_iff instanceof_Date_iff)

text \<open>
  C1. A record fails a listed check when its id is not a number, its prompt is not a
  string of 1 to 10,000 characters after trimming, its response is not a string of 1 to
  100,000 characters after trimming, its model version is not a non-empty string, or
  its timestamp is not a date or is a date later than the moment of validation. For
  every such record \<open>saveConversation\<close> returns the error that validation raised and
  leaves the object store as it was, whatever the database would have answered: the
  write is never attempted. A response that trims to empty is one such record.
\<close>

theorem save_validates_before_write:
  assumes "(\<forall>n. pair_id cp \<noteq> JNum n)
         \<or> (\<forall>s. prompt cp = JStr s \<longrightarrow> length (trim s) < 1 \<or> 10000 < length (trim s))
         \<or> (\<forall>s. response cp = JStr s \<longrightarrow> length (trim s) < 1 \<or> 100000 < length (trim s))
         \<or> (\<forall>s. modelVersion cp = JStr s \<longrightarrow> s = [])
         \<or> (\<forall>t. timestamp cp = JDate t \<longrightarrow> (\<exists>q. t = Fin q \<and> now < q))"
  shows "\<exists>e. validateConversationPair now cp = Inl e
           \<and> (\<forall>fault db. saveConversation now fault cp db = (Inl e, db))"
proof -
  from validate_rejects [OF assms]
  obtain e where e: "validateConversationPair now cp = Inl e" ..
  then have "\<forall>fault db. saveConversation now fault cp db = (Inl e, db)"
    by (simp add: saveConversation_def)
  with e show ?thesis by blast
qed

theorem save_validates_before_write_witness:
  "saveConversation 1700000000001 None blank_response_pair [] =
     (Inl (Error ''Response length must be 1-100000 characters, got 0''), [])"
proof -
  have v: "validateConversationPair 1700000000001 blank_response_pair =
             Inl (Error ''Response length must be 1-100000 characters, got 0'')"
    by (simp add: validateConversationPair_def blank_response_pair_def trim_def
        isWhiteSpace_def show_nat.simps digit_char_def)
  have "\<forall>s. response blank_response_pair = JStr s
              \<longrightarrow> length (trim s) < 1 \<or> 100000 < length (trim s)"
    by (simp add: blank_response_pair_def trim_def isWhiteSpace_def)
  then obtain e where "validateConversationPair 1700000000001 blank_response_pair = Inl e"
    and "\<forall>fault db. saveConversation 1700000000001 fault blank_response_pair db = (Inl e, db)"
    using save_validates_before_write [of blank_response_pair 1700000000001] by blast
  with v show ?thesis by simp
qed

text \<open>
  C8. The code accepts one dimensionality only. A well-formed record with a
  768-dimensional embedding is rejected, as are 1024 and 1536 dimensions; the same
  record with 384 dimensions passes.
\<close>

theorem validate_rejects_768_dimensions:
  "validateConversationPair 1700000000000 (embedded_pair 768) =
     Inl (Error ''Embedding must have 384 dimensions, got 768'')
   \<and> validateConversationPair 1700000000000 (embedded_pair 1024) =
     Inl (Error ''Embedding must have 384 dimensions, got 1024'')
   \<and> validateConversationPair 1700000000000 (embedded_pair 1536) =
     Inl (Error ''Embedding must have 384 dimensions, got 1536'')
   \<and> validateConversationPair 1700000000000 (embedded_pair 384) = Inr ()"
  by (simp add: validateConversationPair_def embedded_pair_def trim_def isWhiteSpace_def
        show_nat.simps digit_char_def)

text \<open>
  C9. With a working database \<open>clearHistory\<close> returns the number of records that were
  stored and leaves the store empty; on an empty store it returns 0 and the store stays
  empty (it stays empty even when the database fails); clearing again after a clear
  returns 0 and changes nothing.
\<close>

theorem clearHistory_idempotent:
  "fst (clearHistory None db) = Inr (length db)
   \<and> snd (clearHistory None db) = []
   \<and> clearHistory None [] = (Inr 0, [])
   \<and> snd (clearHistory fault []) = []
   \<and> clearHistory None (snd (clearHistory None db)) = (Inr 0, snd (clearHistory None db))"
  by (simp add: clearHistory_def split: option.split clear_fault.split)

section \<open>Properties of the component\<close>

lemmas model_defs =
  run_def initial_world_def loadModels_loaded_def getQueuedPrompts_def queuePrompt_def
  dispatchEvent_def console_write_def handleKeyboard_def activate_def hide_def isVisible_def
  submitPrompt_def showError_def new_generation_def frame_def generateResponse_start_def
  upd_gen_def full_prompt_def pipelineSettled_def producer_loop_def delayElapsed_def
  deliver_token_def token_at_def minLoadingElapsed_def join_token_def join_done_def
  producer_resume_def append_token_def notify_done_def generator_finish_def
  consumer_complete_def consumer_fail_def component_cancelGeneration_def cancelGeneration_def
  saveSettled_def component_saveConversation_def generateEmbedding_def saveConversation_def
  validateConversationPair_def add_request_def key_exists_def Error_def error_text_def
  error_toString_def trim_def isWhiteSpace_def show_nat.simps digit_char_def
  handleClickOutside_def handleInputClick_def retry_def component_clearHistory_def
  clearHistory_def render_def listenerTimer_def loadEmbeddingModel_def Let_def

lemma run_snoc: "run w (es @ [e]) = step (run w es) e"
  by (simp add: run_def)

subsection \<open>Submitting a prompt\<close>

lemma submitPrompt_queues:
  assumes "\<not> isLlmLoaded (manager w)" "trim (inputValue w) \<noteq> []"
    "length (trim (inputValue w)) \<le> 10000"
  shows "queuedPrompts (manager (submitPrompt w))
           = queuedPrompts (manager w) @ [trim (inputValue w)]"
    and "gens (submitPrompt w) = gens w"
    and "visibility (submitPrompt w) = Generating"
  using assms by (simp_all add: submitPrompt_def Let_def queuePrompt_def dispatchEvent_def)

lemma submitPrompt_starts:
  assumes "isLlmLoaded (manager w)" "trim (inputValue w) \<noteq> []"
    "length (trim (inputValue w)) \<le> 10000"
  shows "gens (submitPrompt w) = gens w @ [new_generation (trim (inputValue w))]"
    and "manager (submitPrompt w) = manager w"
    and "currentPrompt (submitPrompt w) = trim (inputValue w)"
    and "visibility (submitPrompt w) = Generating"
    and "isGenerating (submitPrompt w)"
  using assms by (simp_all add: submitPrompt_def Let_def)

text \<open>
  C5, as the claim states it, fails. A prompt of 10,001 characters is rejected, but the
  rejection moves the session from \<open>input-visible\<close> to \<open>response-visible\<close>; and a
  blank prompt is dropped without any error being shown.
\<close>

theorem submit_rejection_counterexample:
  "visibility (run initial_world (long_prompt 10001)) = InputVisible
   \<and> visibility (run initial_world (long_prompt 10001 @ [InputEnter])) = ResponseVisible
   \<and> visibility (run initial_world [KeyDown TriggerKey, Typed ''   '', InputEnter]) = InputVisible
   \<and> errorMessage (run initial_world [KeyDown TriggerKey, Typed ''   '', InputEnter]) = None"
  by (simp add: long_prompt_def model_defs)

text \<open>
  C5, amended. A submission whose trimmed text is empty is ignored: nothing changes and
  no error is shown. One whose trimmed text is longer than 10,000 characters is
  rejected: the error \<open>Prompt too long (max 10,000 characters)\<close> is shown, which sets
  \<open>errorMessage\<close> and moves the session to \<open>response-visible\<close>, while the prompt
  buffer, the model manager (and so its queue) and the calls in flight stay as they
  were. Any other submission is accepted: the session moves to \<open>generating\<close> with the
  trimmed text as the current prompt. So 10,000 characters are accepted and 10,001
  rejected.
\<close>

theorem submitPrompt_validation:
  "(trim (inputValue w) = [] \<longrightarrow> submitPrompt w = w)
   \<and> (10000 < length (trim (inputValue w)) \<longrightarrow>
        visibility (submitPrompt w) = ResponseVisible
        \<and> errorMessage (submitPrompt w) = Some ''Prompt too long (max 10,000 characters)''
        \<and> responseContent (submitPrompt w) = ErrorLine ''Prompt too long (max 10,000 characters)''
        \<and> currentPrompt (submitPrompt w) = currentPrompt w
        \<and> isGenerating (submitPrompt w) = isGenerating w
        \<and> manager (submitPrompt w) = manager w
        \<and> gens (submitPrompt w) = gens w)
   \<and> (trim (inputValue w) \<noteq> [] \<and> length (trim (inputValue w)) \<le> 10000 \<longrightarrow>
        visibility (submitPrompt w) = Generating
        \<and> currentPrompt (submitPrompt w) = trim (inputValue w)
        \<and> errorMessage (submitPrompt w) = None)"
  by (auto simp add: submitPrompt_def showError_def dispatchEvent_def Let_def)

theorem submitPrompt_validation_witness:
  "visibility (run initial_world (long_prompt 10000 @ [InputEnter])) = Generating
   \<and> currentPrompt (run initial_world (long_prompt 10000 @ [InputEnter]))
       = replicate 10000 (CHR ''a'')
   \<and> visibility (run initial_world (long_prompt 10001 @ [InputEnter])) = ResponseVisible
   \<and> currentPrompt (run initial_world (long_prompt 10001 @ [InputEnter])) = []
   \<and> gens (run initial_world (long_prompt 10001 @ [InputEnter])) = []
   \<and> run initial_world [KeyDown TriggerKey, Typed ''   '', InputEnter]
       = run initial_world [KeyDown TriggerKey, Typed ''   '']"
proof -
  let ?a = "run initial_world (long_prompt 10000)"
  let ?b = "run initial_world (long_prompt 10001)"
  let ?c = "run initial_world [KeyDown TriggerKey, Typed ''   '']"
  have r: "\<And>es. run initial_world (es @ [InputEnter]) = submitPrompt (run initial_world es)"
    by (simp add: run_def)
  have a: "trim (inputValue ?a) = replicate 10000 (CHR ''a'')"
    and b: "trim (inputValue ?b) = replicate 10001 (CHR ''a'')"
    and c: "trim (inputValue ?c) = []"
    and b': "currentPrompt ?b = []" "gens ?b = []"
    by (simp_all add: long_prompt_def model_defs)
  have c': "run initial_world [KeyDown TriggerKey, Typed ''   '', InputEnter] = submitPrompt ?c"
    by (simp add: run_def)
  show ?thesis
    using submitPrompt_validation [of ?a] submitPrompt_validation [of ?b]
      submitPrompt_validation [of ?c] a b c b' c'
    by (simp add: r)
qed

subsection \<open>The queue of prompts\<close>

lemma loadEmbeddingModel_keeps:
  "queuedPrompts (manager (loadEmbeddingModel emb w)) = queuedPrompts (manager w)"
  "isLlmLoaded (manager (loadEmbeddingModel emb w)) = isLlmLoaded (manager w)"
  "gens (loadEmbeddingModel emb w) = gens w"
  by (simp_all add: loadEmbeddingModel_def console_write_def
      split: embedding_load.split option.split)

lemma loadModels_loaded_drains:
  assumes "queuedPrompts (manager w) = q # qs" "q \<noteq> []"
  shows "\<exists>w'. loadModels_loaded emb w = submitPrompt w' \<and> inputValue w' = q
            \<and> isLlmLoaded (manager w') \<and> queuedPrompts (manager w') = []
            \<and> gens w' = gens w"
  using assms
  apply (simp add: loadModels_loaded_def Let_def getQueuedPrompts_def loadEmbeddingModel_keeps
      dispatchEvent_def console_write_def)
  apply (rule exI, rule conjI, rule refl)
  apply (simp add: loadEmbeddingModel_keeps)
  done

lemma loadModels_loaded_empty:
  assumes "queuedPrompts (manager w) = []"
  shows "queuedPrompts (manager (loadModels_loaded emb w)) = []"
    and "gens (loadModels_loaded emb w) = gens w"
  using assms
  by (simp_all add: loadModels_loaded_def Let_def getQueuedPrompts_def loadEmbeddingModel_keeps
        dispatchEvent_def)

text \<open>
  C4, as the claim states it, fails. Two prompts are queued in order while the model
  loads; when it has loaded the queue is emptied and a generation starts for the first
  prompt only. The second is neither queued nor in flight any more: it was dropped.
\<close>

theorem queue_drain_counterexample:
  "queuedPrompts (manager (run initial_world queue_two)) = [''first'', ''second'']
   \<and> queuedPrompts (manager (run initial_world (queue_two @ [LlmLoaded NoEmbeddingUrl]))) = []
   \<and> map gen_prompt (gens (run initial_world (queue_two @ [LlmLoaded NoEmbeddingUrl])))
       = [''first'']"
  by (simp add: queue_two_def model_defs)

text \<open>
  C4, amended. Every accepted prompt submitted while the model is not loaded is appended
  at the end of the queue, and no generation starts. When the model has loaded the
  queue is emptied, and if it was not empty exactly one generation starts, for its
  first prompt, without a second submit; the prompts queued behind it are discarded.
  (The automatic submit trims the prompt as every submit does; a queued prompt is
  already trimmed, so this leaves it as it is.)
\<close>

theorem queue_first_only:
  "(\<not> isLlmLoaded (manager w) \<and> trim (inputValue w) \<noteq> []
      \<and> length (trim (inputValue w)) \<le> 10000
      \<longrightarrow> queuedPrompts (manager (submitPrompt w))
            = queuedPrompts (manager w) @ [trim (inputValue w)]
          \<and> trim (trim (inputValue w)) = trim (inputValue w)
          \<and> gens (submitPrompt w) = gens w
          \<and> visibility (submitPrompt w) = Generating)
   \<and> (queuedPrompts (manager w) = q # qs \<and> trim q \<noteq> [] \<and> length (trim q) \<le> 10000
      \<longrightarrow> queuedPrompts (manager (loadModels_loaded emb w)) = []
          \<and> gens (loadModels_loaded emb w) = gens w @ [new_generation (trim q)]
          \<and> currentPrompt (loadModels_loaded emb w) = trim q
          \<and> visibility (loadModels_loaded emb w) = Generating
          \<and> isGenerating (loadModels_loaded emb w))
   \<and> (queuedPrompts (manager w) = []
      \<longrightarrow> queuedPrompts (manager (loadModels_loaded emb w)) = []
          \<and> gens (loadModels_loaded emb w) = gens w)"
proof (intro conjI impI)
  assume "\<not> isLlmLoaded (manager w) \<and> trim (inputValue w) \<noteq> []
            \<and> length (trim (inputValue w)) \<le> 10000"
  then show "queuedPrompts (manager (submitPrompt w))
               = queuedPrompts (manager w) @ [trim (inputValue w)]"
    "trim (trim (inputValue w)) = trim (inputValue w)"
    "gens (submitPrompt w) = gens w" "visibility (submitPrompt w) = Generating"
    by (simp_all add: submitPrompt_queues trim_trim)
next
  assume a: "queuedPrompts (manager w) = q # qs \<and> trim q \<noteq> [] \<and> length (trim q) \<le> 10000"
  then have q: "q \<noteq> []" by (auto simp: trim_def)
  from a q loadModels_loaded_drains [of w q qs emb]
  obtain w' where w': "loadModels_loaded emb w = submitPrompt w'" "inputValue w' = q"
    "isLlmLoaded (manager w')" "queuedPrompts (manager w') = []" "gens w' = gens w"
    by blast
  from a w' have t: "trim (inputValue w') \<noteq> []" "length (trim (inputValue w')) \<le> 10000"
    by simp_all
  show "queuedPrompts (manager (loadModels_loaded emb w)) = []"
    "gens (loadModels_loaded emb w) = gens w @ [new_generation (trim q)]"
    "currentPrompt (loadModels_loaded emb w) = trim q"
    "visibility (loadModels_loaded emb w) = Generating"
    "isGenerating (loadModels_loaded emb w)"
    using submitPrompt_starts [OF w'(3) t] w' by simp_all
next
  assume "queuedPrompts (manager w) = []"
  then show "queuedPrompts (manager (loadModels_loaded emb w)) = []"
    "gens (loadModels_loaded emb w) = gens w"
    by (simp_all add: loadModels_loaded_empty)
qed

theorem queue_first_only_witness:
  "queuedPrompts (manager (run initial_world [KeyDown TriggerKey, Typed '' first '', InputEnter]))
     = [''first'']
   \<and> gens (run initial_world (queue_two @ [LlmLoaded NoEmbeddingUrl])) = [new_generation ''first'']
   \<and> queuedPrompts (manager (run initial_world (queue_two @ [LlmLoaded NoEmbeddingUrl]))) = []
   \<and> gens (run initial_world [LlmLoaded NoEmbeddingUrl]) = []"
proof -
  let ?a = "run initial_world [KeyDown TriggerKey, Typed '' first '']"
  let ?b = "run initial_world queue_two"
  have a: "\<not> isLlmLoaded (manager ?a)" "trim (inputValue ?a) = ''first''"
    "queuedPrompts (manager ?a) = []"
    and b: "queuedPrompts (manager ?b) = [''first'', ''second'']" "gens ?b = []"
    "trim ''first'' = ''first''"
    and i: "queuedPrompts (manager initial_world) = []" "gens initial_world = []"
    by (simp_all add: queue_two_def model_defs)
  have ra: "run initial_world [KeyDown TriggerKey, Typed '' first '', InputEnter] = submitPrompt ?a"
    and rb: "run initial_world (queue_two @ [LlmLoaded NoEmbeddingUrl])
               = loadModels_loaded NoEmbeddingUrl ?b"
    and ri: "run initial_world [LlmLoaded NoEmbeddingUrl]
               = loadModels_loaded NoEmbeddingUrl initial_world"
    by (simp_all add: run_def)
  show ?thesis
    using queue_first_only [of ?a "[]" "[]" NoEmbeddingUrl]
      queue_first_only [of ?b "''first''" "[''second'']" NoEmbeddingUrl]
      queue_first_only [of initial_world "[]" "[]" NoEmbeddingUrl] a b i
    unfolding ra rb ri by simp
qed

subsection \<open>Hiding\<close>

text \<open>
  C10. \<open>hide\<close> has no guard of its own: from any state, a generating one included, it
  sets the visibility to \<open>hidden\<close> and clears the current prompt, the current response
  and the error message; it leaves the model manager and every call in flight as they
  were (no controller is aborted) and does not reset \<open>isGenerating\<close>. The guard sits in
  the callers: while generating, a click outside does nothing and the Escape key
  cancels instead of hiding; otherwise both hide.
\<close>

theorem hide_is_unconditional:
  "visibility (hide w) = Hidden \<and> currentPrompt (hide w) = [] \<and> currentResponse (hide w) = []
   \<and> errorMessage (hide w) = None
   \<and> manager (hide w) = manager w \<and> gens (hide w) = gens w
   \<and> isGenerating (hide w) = isGenerating w
   \<and> step w HideCall = hide w
   \<and> (isGenerating w \<longrightarrow> handleClickOutside False w = w)
   \<and> (isGenerating w \<and> visibility w \<noteq> Hidden
        \<longrightarrow> handleKeyboard Escape w = component_cancelGeneration w)
   \<and> (\<not> isGenerating w \<longrightarrow> handleClickOutside False w = hide w)
   \<and> (\<not> isGenerating w \<and> visibility w \<noteq> Hidden \<longrightarrow> handleKeyboard Escape w = hide w)"
  by (simp add: hide_def dispatchEvent_def handleClickOutside_def handleKeyboard_def
      isVisible_def)

theorem hide_is_unconditional_witness:
  "isGenerating (run initial_world story_prefix)
   \<and> visibility (run initial_world story_prefix) = Generating
   \<and> visibility (hide (run initial_world story_prefix)) = Hidden
   \<and> currentPrompt (hide (run initial_world story_prefix)) = []
   \<and> map aborted (gens (hide (run initial_world story_prefix))) = [False]
   \<and> map producer (gens (hide (run initial_world story_prefix)))
       = [AwaitDelay [''Once'', ''upon'', ''a'', ''time'', ''there'', ''was''] 3]
   \<and> abortController (manager (hide (run initial_world story_prefix))) = Some 0
   \<and> handleClickOutside False (run initial_world story_prefix) = run initial_world story_prefix
   \<and> handleKeyboard Escape (run initial_world story_prefix)
        = component_cancelGeneration (run initial_world story_prefix)
   \<and> handleClickOutside False (run initial_world (long_prompt 3))
        = hide (run initial_world (long_prompt 3))
   \<and> handleKeyboard Escape (run initial_world (long_prompt 3))
        = hide (run initial_world (long_prompt 3))"
proof -
  let ?w = "run initial_world story_prefix"
  let ?i = "run initial_world (long_prompt 3)"
  have g: "isGenerating ?w" and v: "visibility ?w = Generating"
    and a: "map aborted (gens ?w) = [False]" and c: "abortController (manager ?w) = Some 0"
    and p: "map producer (gens ?w)
              = [AwaitDelay [''Once'', ''upon'', ''a'', ''time'', ''there'', ''was''] 3]"
    by (simp_all add: story_prefix_def model_defs)
  have i: "\<not> isGenerating ?i" "visibility ?i = InputVisible"
    by (simp_all add: long_prompt_def model_defs)
  from v have nh: "visibility ?w \<noteq> Hidden" by simp
  from i have ni: "visibility ?i \<noteq> Hidden" by simp
  show ?thesis
    using hide_is_unconditional [of ?w] hide_is_unconditional [of ?i] g v a c p i nh ni
    by simp
qed

subsection \<open>A full store\<close>















subsection \<open>Embedding failure\<close>

text \<open>
  C7. With an embedding model loaded, \<open>ping\<close> is answered by \<open>pong\<close> and the
  generation completes. The embedding pipeline then throws: no record is stored, the
  count stays 0, completion is reported with \<open>saved = false\<close>, and the console gets two
  errors and no warning. Had the pipeline answered, the record would have been stored.
\<close>

theorem embedding_failure_blocks_save:
  "map consumer (gens (run initial_world (ping_prefix (EmbeddingLoads ''Xenova/all-MiniLM-L6-v2'') @ [DelayElapsed 0])))
     = [Saving]
   \<and> currentResponse (run initial_world (ping_prefix (EmbeddingLoads ''Xenova/all-MiniLM-L6-v2'') @ [DelayElapsed 0])) = ''pong''
   \<and> idb (run initial_world (ping_prefix (EmbeddingLoads ''Xenova/all-MiniLM-L6-v2'') @
        [DelayElapsed 0, SaveSettled 0 (EmbedThrows ''session failed'') None])) = []
   \<and> conversationCount (run initial_world (ping_prefix (EmbeddingLoads ''Xenova/all-MiniLM-L6-v2'') @
        [DelayElapsed 0, SaveSettled 0 (EmbedThrows ''session failed'') None])) = 0
   \<and> last (dispatched (run initial_world (ping_prefix (EmbeddingLoads ''Xenova/all-MiniLM-L6-v2'') @
        [DelayElapsed 0, SaveSettled 0 (EmbedThrows ''session failed'') None])))
       = GenerationComplete ''ping'' ''pong'' 1 False
   \<and> filter (\<lambda>l. fst l \<noteq> Log) (console (run initial_world (ping_prefix (EmbeddingLoads ''Xenova/all-MiniLM-L6-v2'') @
        [DelayElapsed 0, SaveSettled 0 (EmbedThrows ''session failed'') None])))
       = [(Err, ''Embedding generation failed: Error: session failed''),
          (Err, ''Error saving conversation: Error: Failed to generate embedding: session failed'')]
   \<and> map embedding (idb (run initial_world (ping_prefix (EmbeddingLoads ''Xenova/all-MiniLM-L6-v2'') @
        [DelayElapsed 0, SaveSettled 0 (EmbedData 384) None]))) = [JFloat32Array 384]"
  by (simp add: ping_prefix_def model_defs)

subsection \<open>Timeout\<close>

text \<open>
  C3. With a timeout of 1000 ms, a pipeline that never answers is never timed out:
  however many milliseconds \<open>n\<close> pass after the first pull, the session is still
  generating, no error is shown or reported, and the controller is not aborted. The
  clock is only read when a fragment arrives: a first fragment that arrives after 1001
  ms does raise the timeout and abort the controller.
\<close>

theorem hung_stream_never_times_out:
  "visibility (run timeout_world (hung_run n)) = Generating
   \<and> isGenerating (run timeout_world (hung_run n))
   \<and> errorMessage (run timeout_world (hung_run n)) = None
   \<and> map producer (gens (run timeout_world (hung_run n))) = [AwaitPipeline]
   \<and> map consumer (gens (run timeout_world (hung_run n))) = [AwaitFirst None True]
   \<and> map aborted (gens (run timeout_world (hung_run n))) = [False]
   \<and> map timeoutMs (gens (run timeout_world (hung_run n))) = [1000]
   \<and> clock (run timeout_world (hung_run n))
       = hd (map startTime (gens (run timeout_world (hung_run n)))) + n
   \<and> dispatched (run timeout_world (hung_run n))
       = [ModelLoaded, ChatActivated, GenerationStarted ''hi'']
   \<and> errorMessage (run timeout_world late_run) = Some ''Inference timeout after 1000ms''
   \<and> map aborted (gens (run timeout_world late_run)) = [True]"
  by (simp add: timeout_world_def hung_run_def late_run_def model_defs)

subsection \<open>Cancellation\<close>

text \<open>
  What \<open>_cancelGeneration\<close> does at once, in any state: the session is
  \<open>input-visible\<close>, the response element is emptied, the prompts and the store are
  untouched.
\<close>

lemma cancel_at_once:
  "visibility (component_cancelGeneration w) = InputVisible
   \<and> responseContent (component_cancelGeneration w) = TextContent []
   \<and> isGenerating (component_cancelGeneration w) = False
   \<and> generationAborted (component_cancelGeneration w)
   \<and> currentPrompt (component_cancelGeneration w) = currentPrompt w
   \<and> inputValue (component_cancelGeneration w) = inputValue w
   \<and> currentResponse (component_cancelGeneration w) = currentResponse w
   \<and> idb (component_cancelGeneration w) = idb w"
  by (simp add: component_cancelGeneration_def cancelGeneration_def upd_gen_def
      dispatchEvent_def Let_def split: option.split)

text \<open>
  C2. The user has seen three fragments of a story and presses Escape. At once the
  session is \<open>input-visible\<close> with the prompt kept, the response element is empty, the
  controller is aborted and nothing is stored. But the call of \<open>_generateResponse\<close>
  goes on: the fragment whose pause was running still arrives, the generator then sees
  the abort and ends without an error, and the call treats this as completion. The
  partial response is stored as a record, the count becomes 1, and the session ends
  \<open>response-visible\<close> with the partial response as \<open>currentResponse\<close>.
\<close>

theorem cancelled_generation_is_persisted:
  "visibility (run initial_world story_prefix) = Generating
   \<and> isGenerating (run initial_world story_prefix)
   \<and> map fullResponse (gens (run initial_world story_prefix)) = [''Once upon a '']
   \<and> map tokenCount (gens (run initial_world story_prefix)) = [3]
   \<and> visibility (run initial_world (story_prefix @ [KeyDown Escape])) = InputVisible
   \<and> currentPrompt (run initial_world (story_prefix @ [KeyDown Escape])) = ''tell a story''
   \<and> responseContent (run initial_world (story_prefix @ [KeyDown Escape])) = TextContent []
   \<and> map aborted (gens (run initial_world (story_prefix @ [KeyDown Escape]))) = [True]
   \<and> idb (run initial_world (story_prefix @ [KeyDown Escape])) = []
   \<and> idb (run initial_world (story_prefix @ cancel_tail))
       = [\<lparr>pair_id = JNum (Fin 1700000000890), prompt = JStr ''tell a story'',
           response = JStr ''Once upon a time '', embedding = JFloat32Array 384,
           modelVersion = JStr ''mvp-mock'', timestamp = JDate (Fin 1700000000890)\<rparr>]
   \<and> conversationCount (run initial_world (story_prefix @ cancel_tail)) = 1
   \<and> visibility (run initial_world (story_prefix @ cancel_tail)) = ResponseVisible
   \<and> currentResponse (run initial_world (story_prefix @ cancel_tail)) = ''Once upon a time ''
   \<and> currentPrompt (run initial_world (story_prefix @ cancel_tail)) = ''tell a story''"
  by (simp add: story_prefix_def cancel_tail_def model_defs)

end
